theory Spec2Isabelle
  imports Complex_Main "HOL-Library.Multiset"
begin

section \<open>Data model of the workflow store\<close>

text \<open>
  The store is a zustand store: every action is a function from the current state to a
  partial state object that \<open>set\<close> merges into the state, so an action is modelled as
  a function \<open>WorkflowState \<Rightarrow> WorkflowState\<close> written with record updates of exactly
  the fields the returned object names.

  Event payloads arrive JSON-decoded, so a key of a payload is either absent (\<open>None\<close>)
  or carries a value (\<open>Some v\<close>); a key carrying JSON \<open>null\<close> where the code tests for
  it is \<open>Some None\<close>. Payloads typed \<open>any\<close> are kept as opaque text (\<open>json\<close>).
  JavaScript numbers that count or identify things are \<open>int\<close>, rates and progress
  values are \<open>real\<close>. Every \<open>new Date().toISOString()\<close> of an action is the parameter
  \<open>now\<close> of its model (one reading per call of the action).
\<close>

type_synonym json = string

datatype item_status = Pending | InProgress | Completed | Failed

datatype live_status = LivePending | LiveStreaming | LiveReady | LiveError

datatype buffer_status = Active | BufferCompleted | BufferError

datatype message_role = User | Assistant | System

datatype message_status = Queued | MsgInProgress | MsgCompleted | MsgError

datatype report_status = Generating | ReportReady | ReportError

datatype input_type = Goal_selection | Plan_confirmation | Custom_input

record ScrapingItem =
  link_id :: "string option"
  url :: string
  status :: item_status
  error :: "string option"
  current_stage :: "string option"
  stage_progress :: "real option"
  overall_progress :: "real option"
  status_message :: "string option"
  started_at :: "string option"
  completed_at :: "string option"
  source :: "string option"
  word_count :: "int option"
  bytes_downloaded :: "int option"
  total_bytes :: "int option"

text \<open>\<open>Partial<ScrapingItem>\<close>: the \<open>progress\<close> argument of \<open>updateScrapingItemProgress\<close>.\<close>

record ScrapingItemPartial =
  p_link_id :: "string option"
  p_url :: "string option"
  p_status :: "item_status option"
  p_error :: "string option"
  p_current_stage :: "string option"
  p_stage_progress :: "real option"
  p_overall_progress :: "real option"
  p_status_message :: "string option"
  p_started_at :: "string option"
  p_completed_at :: "string option"
  p_source :: "string option"
  p_word_count :: "int option"
  p_bytes_downloaded :: "int option"
  p_total_bytes :: "int option"

record KeyClaim =
  claim :: string
  supporting_evidence :: string

record NotableEvidence =
  evidence_type :: string
  description :: string

record FiveWhy =
  level :: int
  question :: string
  answer :: string

record PointsOfInterest =
  key_claims :: "KeyClaim list"
  notable_evidence :: "NotableEvidence list"

record AnalysisDetails =
  five_whys :: "FiveWhy list"
  assumptions :: "string list"
  uncertainties :: "string list"

record Findings =
  summary :: string
  article :: "string option"
  points_of_interest :: PointsOfInterest
  analysis_details :: AnalysisDetails

record SessionStep =
  step_id :: int
  findings :: Findings
  insights :: string
  confidence :: real
  timestamp :: string

record StreamState =
  isStreaming :: bool
  phase :: "string option"
  metadata :: "json option"
  startedAt :: "string option"
  lastTokenAt :: "string option"
  endedAt :: "string option"

record StreamBufferState = StreamState +
  sb_id :: string
  raw :: string
  sb_status :: buffer_status
  tokenCount :: int
  sb_error :: "string option"
  sb_pinned :: "bool option"

record StreamCollectionState =
  activeStreamId :: "string option"
  buffers :: "string \<rightharpoonup> StreamBufferState"
  order :: "string list"
  pinned :: "string list"

record LiveGoal =
  lg_id :: int
  goal_text :: "string option"
  rationale :: "string option"
  uses :: "string list option"
  sources :: "string list option"
  lg_status :: live_status
  updatedAt :: "string option"

text \<open>
  \<open>Partial<LiveGoal> & { id: number }\<close>: the payload of a goal update. The entries of the
  \<open>goals\<close> array have the same shape, since \<open>updateLiveGoal\<close> spreads the payload over
  them.
\<close>

record GoalUpdate =
  ge_id :: int
  ge_goal_text :: "string option"
  ge_rationale :: "string option"
  ge_uses :: "string list option"
  ge_sources :: "string list option"
  ge_status :: "live_status option"
  ge_updatedAt :: "string option"

record LivePlanStep =
  lp_step_id :: int
  lp_goal :: "string option"
  required_data :: "string option"
  chunk_strategy :: "string option"
  lp_notes :: "string option"
  lp_status :: live_status
  lp_updatedAt :: "string option"

text \<open>
  \<open>Partial<LivePlanStep> & { step_id: number }\<close>, also the shape of the entries of the
  \<open>plan\<close> array.
\<close>

record PlanStepUpdate =
  pe_step_id :: int
  pe_goal :: "string option"
  pe_required_data :: "string option"
  pe_chunk_strategy :: "string option"
  pe_notes :: "string option"
  pe_status :: "live_status option"
  pe_updatedAt :: "string option"

record LiveInsight =
  li_id :: string
  li_title :: "string option"
  li_summary :: "string option"
  li_sources :: "string list option"
  li_status :: live_status
  li_updatedAt :: "string option"

record LiveAction =
  la_id :: string
  la_description :: "string option"
  la_result :: "string option"
  la_status :: live_status
  la_updatedAt :: "string option"

record LiveReportSection =
  ls_id :: string
  ls_heading :: "string option"
  ls_content :: "string option"
  ls_status :: live_status
  ls_updatedAt :: "string option"




record ConversationMessage =
  cm_id :: string
  role :: message_role
  content :: string
  cm_status :: message_status
  cm_timestamp :: string
  cm_metadata :: "json option"

record UserInputRequired =
  ui_type :: input_type
  prompt_id :: "string option"
  prompt :: "string option"
  ui_data :: "json option"

record SynthesizedGoal =
  comprehensive_topic :: string
  component_questions :: "string list"
  unifying_theme :: "string option"

record SummarizationProgress =
  currentItem :: int
  totalItems :: int
  linkId :: string
  stage :: string
  progress :: real
  sp_message :: string

record RerunState =
  rr_inProgress :: bool
  rr_phase :: "string option"
  rr_phases :: "string list"
  rr_lastError :: "string option"

record StepRerunState =
  sr_inProgress :: bool
  sr_stepId :: "int option"
  sr_regenerateReport :: bool
  sr_lastError :: "string option"

record ScrapingStatus =
  total :: int
  expectedTotal :: int
  completed :: int
  failed :: int
  inProgress :: int
  items :: "ScrapingItem list"
  completionRate :: real
  is100Percent :: bool
  canProceedToResearch :: bool

text \<open>
  \<open>Partial<WorkflowState['scrapingStatus']>\<close>. The code tests \<open>expectedTotal\<close> against
  \<open>undefined\<close> (absent, \<open>None\<close>), \<open>null\<close> (\<open>Some None\<close>) and \<open>0\<close>.
\<close>

record ScrapingStatusPartial =
  u_total :: "int option"
  u_expectedTotal :: "int option option"
  u_completed :: "int option"
  u_failed :: "int option"
  u_inProgress :: "int option"
  u_items :: "ScrapingItem list option"
  u_completionRate :: "real option"
  u_is100Percent :: "bool option"
  u_canProceedToResearch :: "bool option"

record CancellationInfo =
  cancelled_at :: "string option"
  reason :: "string option"
  state_at_cancellation :: "json option"

record ResearchAgentStatus =
  streams :: StreamCollectionState
  ra_phase :: string
  currentAction :: "string option"
  waitingForUser :: bool
  userInputRequired :: "UserInputRequired option"
  streamBuffer :: string
  streamingState :: StreamState
  liveGoals :: "int \<rightharpoonup> LiveGoal"
  goalOrder :: "int list"
  goals :: "GoalUpdate list option"
  livePlanSteps :: "int \<rightharpoonup> LivePlanStep"
  planOrder :: "int list"
  plan :: "PlanStepUpdate list option"
  liveInsights :: "string \<rightharpoonup> LiveInsight"
  liveActions :: "string \<rightharpoonup> LiveAction"
  liveReportSections :: "string \<rightharpoonup> LiveReportSection"
  synthesizedGoal :: "SynthesizedGoal option"
  summarizationProgress :: "SummarizationProgress option"
  conversationMessages :: "ConversationMessage list"

record FinalReport =
  fr_content :: string
  generatedAt :: string
  fr_status :: report_status

record ErrorEntry =
  err_phase :: string
  err_message :: string
  err_timestamp :: string

record WorkflowState =
  currentPhase :: string
  batchId :: "string option"
  workflowId :: "string option"
  workflowStarted :: bool
  sessionId :: "string option"
  reportStale :: bool
  rerunState :: RerunState
  stepRerunState :: StepRerunState
  overallProgress :: real
  currentStep :: "string option"
  stepProgress :: real
  scrapingStatus :: ScrapingStatus
  cancelled :: bool
  cancellationInfo :: "CancellationInfo option"
  researchAgentStatus :: ResearchAgentStatus
  phase3Steps :: "SessionStep list"
  currentStepId :: "int option"
  finalReport :: "FinalReport option"
  errors :: "ErrorEntry list"




text \<open>The result of \<open>validateState\<close>.\<close>

record ValidationResult =
  isValid :: bool
  v_errors :: "string list"

text \<open>
  The persisted session detail that the history page loads (\<open>HistorySessionDetail\<close> and
  the snapshots in it). Of the untyped \<open>metadata\<close> and of a persisted goal only the keys
  that the page reads are kept.
\<close>

datatype session_status = SessCompleted | SessInProgress | SessFailed | SessCancelled

record ScrapingStatusSnapshot =
  snap_total :: "int option"
  snap_expected_total :: "int option"
  snap_completed :: "int option"
  snap_failed :: "int option"
  snap_inProgress :: "int option"
  snap_items :: "ScrapingItem list option"
  snap_completionRate :: "real option"
  snap_is100Percent :: "bool option"
  snap_canProceedToResearch :: "bool option"

record Phase3State =
  p3_plan :: "PlanStepUpdate list option"
  p3_steps :: "SessionStep list option"
  completed_step_ids :: "int list option"
  total_steps :: "int option"
  next_step_id :: "int option"
  p3_synthesized_goal :: "SynthesizedGoal option"

record PersistedGoal =
  pg_id :: "int option"
  pg_goal_id :: "int option"
  pg_goal_text :: "string option"
  pg_goal :: "string option"
  pg_uses :: "string list option"
  pg_sources :: "string list option"

record SessionMetadata =
  phase1_confirmed_goals :: "PersistedGoal list option"
  research_plan :: "PlanStepUpdate list option"
  md_synthesized_goal :: "SynthesizedGoal option"

record HistorySessionDetail =
  batch_id :: string
  session_id :: "string option"
  created_at :: string
  hs_status :: session_status
  topic :: "string option"
  url_count :: "int option"
  current_phase :: "string option"
  hs_metadata :: "SessionMetadata option"
  scraping_status :: "ScrapingStatusSnapshot option"
  phase3 :: "Phase3State option"
  resume_required :: "bool option"
  data_loaded :: "bool option"


section \<open>The initial state\<close>

definition initialStreamingState :: StreamState where
  "initialStreamingState =
     \<lparr> isStreaming = False, phase = None, metadata = None, startedAt = None,
       lastTokenAt = None, endedAt = None \<rparr>"

definition initialStreams :: StreamCollectionState where
  "initialStreams =
     \<lparr> activeStreamId = None, buffers = Map.empty, order = [], pinned = [] \<rparr>"

definition initialScrapingStatus :: ScrapingStatus where
  "initialScrapingStatus =
     \<lparr> total = 0, expectedTotal = 0, completed = 0, failed = 0, inProgress = 0,
       items = [], completionRate = 0, is100Percent = False,
       canProceedToResearch = False \<rparr>"

definition initialResearchAgentStatus :: ResearchAgentStatus where
  "initialResearchAgentStatus =
     \<lparr> streams = initialStreams, ra_phase = ''0.5'', currentAction = None,
       waitingForUser = False, userInputRequired = None, streamBuffer = '''',
       streamingState = initialStreamingState, liveGoals = Map.empty, goalOrder = [],
       goals = None, livePlanSteps = Map.empty, planOrder = [], plan = None,
       liveInsights = Map.empty, liveActions = Map.empty,
       liveReportSections = Map.empty, synthesizedGoal = None,
       summarizationProgress = None, conversationMessages = [] \<rparr>"

definition initialState :: WorkflowState where
  "initialState =
     \<lparr> currentPhase = ''input'', batchId = None, workflowId = None,
       workflowStarted = False, sessionId = None, reportStale = False,
       rerunState = \<lparr> rr_inProgress = False, rr_phase = None, rr_phases = [],
                      rr_lastError = None \<rparr>,
       stepRerunState = \<lparr> sr_inProgress = False, sr_stepId = None,
                          sr_regenerateReport = True, sr_lastError = None \<rparr>,
       overallProgress = 0, currentStep = None, stepProgress = 0,
       scrapingStatus = initialScrapingStatus,
       cancelled = False, cancellationInfo = None,
       researchAgentStatus = initialResearchAgentStatus,
       phase3Steps = [], currentStepId = None, finalReport = None, errors = [] \<rparr>"

section \<open>JavaScript operators\<close>

text \<open>
  \<open>a ?? b\<close> on nullable values (\<open>nullish\<close>), the same with a default that is not nullable
  and the spread of an optional key over a stored value (\<open>orKeep\<close>), and the truthiness of
  an optional string: present and not empty.
\<close>

definition nullish :: "'a option \<Rightarrow> 'a option \<Rightarrow> 'a option" where
  "nullish a b = (case a of Some v \<Rightarrow> Some v | None \<Rightarrow> b)"

definition orKeep :: "'a option \<Rightarrow> 'a \<Rightarrow> 'a" where
  "orKeep a b = (case a of Some v \<Rightarrow> v | None \<Rightarrow> b)"

definition truthy :: "string option \<Rightarrow> bool" where
  "truthy x = (case x of None \<Rightarrow> False | Some v \<Rightarrow> v \<noteq> [])"

section \<open>Session actions\<close>

text \<open>
  \<open>setBatchId\<close>: the same batch id writes back \<open>batchId\<close> and \<open>workflowStarted\<close>; a
  different one returns an object literal naming every data field of the state. The
  literal is written out here as in the source, not taken from \<open>initialState\<close>.
\<close>

definition setBatchId :: "string \<Rightarrow> WorkflowState \<Rightarrow> WorkflowState" where
  "setBatchId b s =
     (if batchId s = Some b
      then s\<lparr> batchId := Some b, workflowStarted := workflowStarted s \<rparr>
      else s\<lparr> batchId := Some b,
              workflowId := None,
              workflowStarted := False,
              currentPhase := ''input'',
              sessionId := None,
              reportStale := False,
              rerunState := \<lparr> rr_inProgress = False, rr_phase = None, rr_phases = [],
                              rr_lastError = None \<rparr>,
              stepRerunState := \<lparr> sr_inProgress = False, sr_stepId = None,
                                  sr_regenerateReport = True, sr_lastError = None \<rparr>,
              overallProgress := 0,
              currentStep := None,
              stepProgress := 0,
              scrapingStatus :=
                \<lparr> total = 0, expectedTotal = 0, completed = 0, failed = 0,
                  inProgress = 0, items = [], completionRate = 0,
                  is100Percent = False, canProceedToResearch = False \<rparr>,
              cancelled := False,
              cancellationInfo := None,
              researchAgentStatus :=
                \<lparr> streams = \<lparr> activeStreamId = None, buffers = Map.empty, order = [],
                              pinned = [] \<rparr>,
                  ra_phase = ''0.5'', currentAction = None, waitingForUser = False,
                  userInputRequired = None, streamBuffer = '''',
                  streamingState =
                    \<lparr> isStreaming = False, phase = None, metadata = None,
                      startedAt = None, lastTokenAt = None, endedAt = None \<rparr>,
                  liveGoals = Map.empty, goalOrder = [], goals = None,
                  livePlanSteps = Map.empty, planOrder = [], plan = None,
                  liveInsights = Map.empty, liveActions = Map.empty,
                  liveReportSections = Map.empty, synthesizedGoal = None,
                  summarizationProgress = None, conversationMessages = [] \<rparr>,
              phase3Steps := [],
              currentStepId := None,
              finalReport := None,
              errors := [] \<rparr>)"




definition setFinalReport :: "FinalReport option \<Rightarrow> WorkflowState \<Rightarrow> WorkflowState" where
  "setFinalReport report s = s\<lparr> finalReport := report \<rparr>"


section \<open>Scraping status\<close>

text \<open>The spread \<open>{ ...state.scrapingStatus, ...updatedStatus }\<close>.\<close>

definition mergeScrapingStatus ::
  "ScrapingStatus \<Rightarrow> ScrapingStatusPartial \<Rightarrow> ScrapingStatus" where
  "mergeScrapingStatus ss u =
     \<lparr> total = orKeep (u_total u) (total ss),
       expectedTotal =
         (case u_expectedTotal u of Some (Some v) \<Rightarrow> v | _ \<Rightarrow> expectedTotal ss),
       completed = orKeep (u_completed u) (completed ss),
       failed = orKeep (u_failed u) (failed ss),
       inProgress = orKeep (u_inProgress u) (inProgress ss),
       items = orKeep (u_items u) (items ss),
       completionRate = orKeep (u_completionRate u) (completionRate ss),
       is100Percent = orKeep (u_is100Percent u) (is100Percent ss),
       canProceedToResearch =
         orKeep (u_canProceedToResearch u) (canProceedToResearch ss) \<rparr>"

text \<open>
  \<open>updateScrapingStatus\<close>: a copy of the update loses its \<open>expectedTotal\<close> key when the
  value is \<open>0\<close> or \<open>null\<close> (both branches of the inner test on the stored value delete
  it), then the copy is spread over the stored status.
\<close>

definition updateScrapingStatus ::
  "ScrapingStatusPartial \<Rightarrow> WorkflowState \<Rightarrow> WorkflowState" where
  "updateScrapingStatus st s =
     (let updatedStatus =
        (case u_expectedTotal st of
           None \<Rightarrow> st
         | Some v \<Rightarrow>
             if v = Some 0 \<or> v = None
             then (if expectedTotal (scrapingStatus s) > 0
                   then st\<lparr> u_expectedTotal := None \<rparr>
                   else st\<lparr> u_expectedTotal := None \<rparr>)
             else st)
      in s\<lparr> scrapingStatus := mergeScrapingStatus (scrapingStatus s) updatedStatus \<rparr>)"

text \<open>
  \<open>updateScrapingItem\<close>: items with the given url get the new status and error; the three
  counters are the lengths of three filters of the new list.
\<close>

definition updateScrapingItem ::
  "string \<Rightarrow> item_status \<Rightarrow> string option \<Rightarrow> WorkflowState \<Rightarrow> WorkflowState" where
  "updateScrapingItem u st err s =
     (let its = map (\<lambda>item. if url item = u then item\<lparr> status := st, error := err \<rparr>
                              else item)
                    (items (scrapingStatus s));
          completed' = int (length (filter (\<lambda>i. status i = Completed) its));
          failed' = int (length (filter (\<lambda>i. status i = Failed) its));
          inProgress' = int (length (filter (\<lambda>i. status i = InProgress) its))
      in s\<lparr> scrapingStatus :=
              (scrapingStatus s)\<lparr> items := its, completed := completed',
                                  failed := failed', inProgress := inProgress' \<rparr> \<rparr>)"

text \<open>The spread \<open>{ ...item, ...progress }\<close>.\<close>

definition spreadProgress :: "ScrapingItem \<Rightarrow> ScrapingItemPartial \<Rightarrow> ScrapingItem" where
  "spreadProgress item p =
     \<lparr> link_id = nullish (p_link_id p) (link_id item),
       url = orKeep (p_url p) (url item),
       status = orKeep (p_status p) (status item),
       error = nullish (p_error p) (error item),
       current_stage = nullish (p_current_stage p) (current_stage item),
       stage_progress = nullish (p_stage_progress p) (stage_progress item),
       overall_progress = nullish (p_overall_progress p) (overall_progress item),
       status_message = nullish (p_status_message p) (status_message item),
       started_at = nullish (p_started_at p) (started_at item),
       completed_at = nullish (p_completed_at p) (completed_at item),
       source = nullish (p_source p) (source item),
       word_count = nullish (p_word_count p) (word_count item),
       bytes_downloaded = nullish (p_bytes_downloaded p) (bytes_downloaded item),
       total_bytes = nullish (p_total_bytes p) (total_bytes item) \<rparr>"

text \<open>
  \<open>updateScrapingItemProgress\<close>: an item matches by \<open>link_id\<close> when one is given (and not
  empty), by url otherwise. Matching items take the progress fields, with status
  \<open>progress.status || item.status || 'in-progress'\<close> (an item's status is never falsy).
  When no item of the mapped list matches, \<open>{ link_id, url, status: progress.status ||
  'in-progress', ...progress }\<close> is pushed. The counters are again lengths of filters of
  the new list; \<open>inProgress\<close> here counts pending items too.
\<close>

definition updateScrapingItemProgress ::
  "string option \<Rightarrow> string \<Rightarrow> ScrapingItemPartial \<Rightarrow> WorkflowState \<Rightarrow> WorkflowState" where
  "updateScrapingItemProgress lid u p s =
     (let mapped =
            map (\<lambda>item.
                   if (if truthy lid then link_id item = lid else url item = u)
                   then (spreadProgress item p)\<lparr> status := orKeep (p_status p) (status item) \<rparr>
                   else item)
                (items (scrapingStatus s));
          exists = list_ex (\<lambda>item. (truthy lid \<and> link_id item = lid) \<or>
                                    (\<not> truthy lid \<and> url item = u)) mapped;
          its = (if \<not> exists
                 then mapped @
                   [spreadProgress
                      \<lparr> link_id = lid, url = u,
                        status = orKeep (p_status p) InProgress,
                        error = None, current_stage = None, stage_progress = None,
                        overall_progress = None, status_message = None,
                        started_at = None, completed_at = None, source = None,
                        word_count = None, bytes_downloaded = None,
                        total_bytes = None \<rparr> p]
                 else mapped);
          completed' = int (length (filter (\<lambda>i. status i = Completed) its));
          failed' = int (length (filter (\<lambda>i. status i = Failed) its));
          inProgress' = int (length (filter (\<lambda>i. status i = InProgress \<or>
                                                     status i = Pending) its))
      in s\<lparr> scrapingStatus :=
              (scrapingStatus s)\<lparr> items := its, completed := completed',
                                  failed := failed', inProgress := inProgress' \<rparr> \<rparr>)"





text \<open>Concrete items and states used to evaluate the scraping actions.\<close>

definition mkItem :: "string \<Rightarrow> item_status \<Rightarrow> ScrapingItem" where
  "mkItem u st =
     \<lparr> link_id = None, url = u, status = st, error = None, current_stage = None,
       stage_progress = None, overall_progress = None, status_message = None,
       started_at = None, completed_at = None, source = None, word_count = None,
       bytes_downloaded = None, total_bytes = None \<rparr>"

definition noProgress :: ScrapingItemPartial where
  "noProgress =
     \<lparr> p_link_id = None, p_url = None, p_status = None, p_error = None,
       p_current_stage = None, p_stage_progress = None, p_overall_progress = None,
       p_status_message = None, p_started_at = None, p_completed_at = None,
       p_source = None, p_word_count = None, p_bytes_downloaded = None,
       p_total_bytes = None \<rparr>"

definition noStatusUpdate :: ScrapingStatusPartial where
  "noStatusUpdate =
     \<lparr> u_total = None, u_expectedTotal = None, u_completed = None, u_failed = None,
       u_inProgress = None, u_items = None, u_completionRate = None,
       u_is100Percent = None, u_canProceedToResearch = None \<rparr>"

definition twoPendingItems :: WorkflowState where
  "twoPendingItems =
     initialState\<lparr> scrapingStatus :=
       initialScrapingStatus\<lparr> items := [mkItem ''a'' Pending, mkItem ''b'' Pending] \<rparr> \<rparr>"

section \<open>Research agent status, goals and plan\<close>


text \<open>
  \<open>setGoals\<close>: the \<open>forEach\<close> over the goals threads the copy of \<open>liveGoals\<close> and the new
  \<open>goalOrder\<close>; each goal is stored as \<open>{ ...existing, ...goal, id, status: 'ready',
  updatedAt: timestamp }\<close>, where \<open>existing\<close> defaults to \<open>{ id, status: 'ready' }\<close>. Entries
  of the array are goal objects with an id, so the guards \<open>!goal\<close> and \<open>goal.id ??\<close> do
  not fire.
\<close>

definition setGoalsStep ::
  "string \<Rightarrow> (int \<rightharpoonup> LiveGoal) \<times> int list \<Rightarrow> GoalUpdate \<Rightarrow> (int \<rightharpoonup> LiveGoal) \<times> int list" where
  "setGoalsStep ts acc g =
     (let lgs = fst acc; ord = snd acc; i = ge_id g;
          existing = (case lgs i of Some e \<Rightarrow> e
                      | None \<Rightarrow> \<lparr> lg_id = i, goal_text = None, rationale = None,
                                  uses = None, sources = None, lg_status = LiveReady,
                                  updatedAt = None \<rparr>)
      in (lgs(i \<mapsto> \<lparr> lg_id = i,
                       goal_text = nullish (ge_goal_text g) (goal_text existing),
                       rationale = nullish (ge_rationale g) (rationale existing),
                       uses = nullish (ge_uses g) (uses existing),
                       sources = nullish (ge_sources g) (sources existing),
                       lg_status = LiveReady,
                       updatedAt = Some ts \<rparr>),
          ord @ [i]))"

definition setGoals :: "string \<Rightarrow> GoalUpdate list option \<Rightarrow> WorkflowState \<Rightarrow> WorkflowState" where
  "setGoals now gs s =
     (let r = researchAgentStatus s;
          acc = (case gs of None \<Rightarrow> (liveGoals r, [])
                 | Some l \<Rightarrow> foldl (setGoalsStep now) (liveGoals r, []) l)
      in s\<lparr> researchAgentStatus :=
              r\<lparr> goals := gs, liveGoals := fst acc,
                 goalOrder := (if snd acc \<noteq> [] then snd acc else goalOrder r) \<rparr> \<rparr>)"

definition setPlanStep ::
  "string \<Rightarrow> (int \<rightharpoonup> LivePlanStep) \<times> int list \<Rightarrow> PlanStepUpdate
     \<Rightarrow> (int \<rightharpoonup> LivePlanStep) \<times> int list" where
  "setPlanStep ts acc p =
     (let lps = fst acc; ord = snd acc; i = pe_step_id p;
          existing = (case lps i of Some e \<Rightarrow> e
                      | None \<Rightarrow> \<lparr> lp_step_id = i, lp_goal = None, required_data = None,
                                  chunk_strategy = None, lp_notes = None,
                                  lp_status = LiveReady, lp_updatedAt = None \<rparr>)
      in (lps(i \<mapsto> \<lparr> lp_step_id = i,
                       lp_goal = nullish (pe_goal p) (lp_goal existing),
                       required_data = nullish (pe_required_data p) (required_data existing),
                       chunk_strategy =
                         nullish (pe_chunk_strategy p) (chunk_strategy existing),
                       lp_notes = nullish (pe_notes p) (lp_notes existing),
                       lp_status = LiveReady,
                       lp_updatedAt = Some ts \<rparr>),
          ord @ [i]))"

definition setPlan :: "string \<Rightarrow> PlanStepUpdate list option \<Rightarrow> WorkflowState \<Rightarrow> WorkflowState" where
  "setPlan now ps s =
     (let r = researchAgentStatus s;
          acc = (case ps of None \<Rightarrow> (livePlanSteps r, [])
                 | Some l \<Rightarrow> foldl (setPlanStep now) (livePlanSteps r, []) l)
      in s\<lparr> researchAgentStatus :=
              r\<lparr> plan := ps, livePlanSteps := fst acc,
                 planOrder := (if snd acc \<noteq> [] then snd acc else planOrder r) \<rparr> \<rparr>)"

definition setSynthesizedGoal :: "SynthesizedGoal option \<Rightarrow> WorkflowState \<Rightarrow> WorkflowState" where
  "setSynthesizedGoal g s =
     s\<lparr> researchAgentStatus := (researchAgentStatus s)\<lparr> synthesizedGoal := g \<rparr> \<rparr>"

text \<open>The spread \<open>{ ...g, ...goal }\<close> of a goal update over an entry of the \<open>goals\<close> array.\<close>

definition spreadGoal :: "GoalUpdate \<Rightarrow> GoalUpdate \<Rightarrow> GoalUpdate" where
  "spreadGoal g e =
     \<lparr> ge_id = ge_id e,
       ge_goal_text = nullish (ge_goal_text e) (ge_goal_text g),
       ge_rationale = nullish (ge_rationale e) (ge_rationale g),
       ge_uses = nullish (ge_uses e) (ge_uses g),
       ge_sources = nullish (ge_sources e) (ge_sources g),
       ge_status = nullish (ge_status e) (ge_status g),
       ge_updatedAt = nullish (ge_updatedAt e) (ge_updatedAt g) \<rparr>"

text \<open>
  \<open>updateLiveGoal\<close>. The merged goal is the object literal of the source: the stored
  fields of the previous goal, the status \<open>goal.status || previous?.status ||
  'streaming'\<close>, \<open>updatedAt\<close> read from the clock, and then the spread of the event, which
  overrides every key the event carries.
\<close>

definition updateLiveGoal :: "string \<Rightarrow> GoalUpdate \<Rightarrow> WorkflowState \<Rightarrow> WorkflowState" where
  "updateLiveGoal now goal s =
     (let r = researchAgentStatus s;
          i = ge_id goal;
          previous = liveGoals r i;
          merged =
            \<lparr> lg_id = i,
              goal_text = nullish (ge_goal_text goal) (Option.bind previous goal_text),
              rationale = nullish (ge_rationale goal) (Option.bind previous rationale),
              uses = nullish (ge_uses goal) (Option.bind previous uses),
              sources = nullish (ge_sources goal) (Option.bind previous sources),
              lg_status =
                (case ge_status goal of Some st \<Rightarrow> st
                 | None \<Rightarrow> (case previous of Some p \<Rightarrow> lg_status p
                             | None \<Rightarrow> LiveStreaming)),
              updatedAt = nullish (ge_updatedAt goal) (Some now) \<rparr>;
          existingGoals = (case goals r of Some l \<Rightarrow> l | None \<Rightarrow> []);
          goals' = (if existingGoals \<noteq> []
                    then Some (map (\<lambda>g. if ge_id g = i then spreadGoal g goal else g)
                                   existingGoals)
                    else None);
          goalOrder' = (if i \<in> set (goalOrder r) then goalOrder r else goalOrder r @ [i])
      in s\<lparr> researchAgentStatus :=
              r\<lparr> liveGoals := (liveGoals r)(i \<mapsto> merged), goals := goals',
                 goalOrder := goalOrder' \<rparr> \<rparr>)"






section \<open>Streams\<close>





section \<open>Conversation messages\<close>


definition resetConversationMessages :: "WorkflowState \<Rightarrow> WorkflowState" where
  "resetConversationMessages s =
     s\<lparr> researchAgentStatus := (researchAgentStatus s)\<lparr> conversationMessages := [] \<rparr> \<rparr>"


section \<open>Phase 3 steps\<close>

text \<open>
  A JavaScript \<open>Map\<close> as an association list in insertion order: \<open>set\<close> on a key that is
  present replaces the value in place, on a new key it appends.
\<close>

fun mapSet :: "'k \<Rightarrow> 'v \<Rightarrow> ('k \<times> 'v) list \<Rightarrow> ('k \<times> 'v) list" where
  "mapSet k v [] = [(k, v)]"
| "mapSet k v ((k', v') # m) = (if k' = k then (k, v) # m else (k', v') # mapSet k v m)"

text \<open>The \<open>forEach\<close> that fills \<open>stepsMap\<close> with the stored steps of the other ids.\<close>

definition stepsMapOf :: "SessionStep \<Rightarrow> SessionStep list \<Rightarrow> (int \<times> SessionStep) list" where
  "stepsMapOf step xs =
     foldl (\<lambda>m x. if step_id x \<noteq> step_id step then mapSet (step_id x) x m else m) [] xs"

text \<open>
  \<open>updatedSteps\<close> of \<open>addPhase3Step\<close>, sorted: when the step id is stored already, the values
  of the map with the new step set last; otherwise the stored steps with the new one
  appended.
\<close>

definition addStepTo :: "SessionStep \<Rightarrow> SessionStep list \<Rightarrow> SessionStep list" where
  "addStepTo step xs =
     (let updatedSteps =
        (if step_id step \<in> set (map step_id xs)
         then map snd (mapSet (step_id step) step (stepsMapOf step xs))
         else xs @ [step])
      in sort_key step_id updatedSteps)"

definition addPhase3Step :: "SessionStep \<Rightarrow> WorkflowState \<Rightarrow> WorkflowState" where
  "addPhase3Step step s =
     s\<lparr> phase3Steps := addStepTo step (phase3Steps s),
        currentStepId := Some (step_id step) \<rparr>"

definition setPhase3Steps ::
  "SessionStep list \<Rightarrow> int option \<Rightarrow> WorkflowState \<Rightarrow> WorkflowState" where
  "setPhase3Steps steps nextStepId s =
     (let sorted' = sort_key step_id steps;
          lastCompleted = (if sorted' \<noteq> [] then Some (step_id (last sorted')) else None);
          currentStepId' = (case nextStepId of Some n \<Rightarrow> Some n | None \<Rightarrow> lastCompleted)
      in s\<lparr> phase3Steps := sorted', currentStepId := currentStepId' \<rparr>)"

section \<open>The consistency validator\<close>

text \<open>Decimal rendering of a length inside the template string of the validator.\<close>

definition digitChar :: "nat \<Rightarrow> char" where
  "digitChar d = ''0123456789'' ! d"

fun showNat :: "nat \<Rightarrow> string" where
  "showNat n =
     (if n < 10 then [digitChar n]
      else showNat (n div 10) @ [digitChar (n mod 10)])"

declare showNat.simps [simp del]

definition incompleteMessage :: "nat \<Rightarrow> nat \<Rightarrow> string" where
  "incompleteMessage n m =
     ''Final report exists but phase3 incomplete ('' @ showNat n @ ''/'' @ showNat m
       @ '' steps)''"

definition validateState :: "WorkflowState \<Rightarrow> ValidationResult" where
  "validateState s =
     (let ss = scrapingStatus s; r = researchAgentStatus s;
          errs =
            (if truthy (batchId s)
             then (if length (items ss) > 0 \<and> \<not> truthy (batchId s)
                   then [''Scraping items exist but no batchId set''] else [])
                @ (if goals r \<noteq> None \<and> completed ss = 0
                   then [''Research goals exist but scraping not completed''] else [])
                @ (if length (phase3Steps s) > 0 \<and> plan r = None
                   then [''Phase3 steps exist but no research plan found''] else [])
                @ (if finalReport s \<noteq> None \<and> plan r \<noteq> None
                   then (let expectedSteps = length (case plan r of Some p \<Rightarrow> p | None \<Rightarrow> [])
                         in if length (phase3Steps s) < expectedSteps
                            then [incompleteMessage (length (phase3Steps s)) expectedSteps]
                            else [])
                   else [])
                @ (if workflowStarted s = False \<and>
                      (total ss > 0 \<or> goals r \<noteq> None \<or> length (phase3Steps s) > 0)
                   then [''Workflow has progress but workflowStarted is false''] else [])
             else (if total ss > 0 \<or> goals r \<noteq> None \<or> length (phase3Steps s) > 0 \<or>
                      finalReport s \<noteq> None
                   then [''No batchId but workflow state exists (state should be reset)'']
                   else []))
      in \<lparr> isValid = (errs = []), v_errors = errs \<rparr>)"

section \<open>Hydration from a persisted session\<close>




definition sessionPlan :: "HistorySessionDetail \<Rightarrow> PlanStepUpdate list" where
  "sessionPlan d =
     orKeep (nullish (Option.bind (hs_metadata d) research_plan)
                     (Option.bind (phase3 d) p3_plan)) []"

definition sessionSynthesizedGoal :: "HistorySessionDetail \<Rightarrow> SynthesizedGoal option" where
  "sessionSynthesizedGoal d =
     nullish (Option.bind (hs_metadata d) md_synthesized_goal)
             (Option.bind (phase3 d) p3_synthesized_goal)"




definition hydratePhase3 ::
  "string \<Rightarrow> HistorySessionDetail \<Rightarrow> WorkflowState \<Rightarrow> WorkflowState" where
  "hydratePhase3 tPlan d s =
     (case phase3 d of
        None \<Rightarrow> s
      | Some p3 \<Rightarrow>
          (let plan' = sessionPlan d;
               phase3Plan = orKeep (p3_plan p3) plan';
               phase3Steps' = orKeep (p3_steps p3) [];
               s1 = (if phase3Plan \<noteq> [] \<and> plan' = []
                     then setPlan tPlan (Some phase3Plan) s else s);
               s2 = (if p3_synthesized_goal p3 \<noteq> None \<and> sessionSynthesizedGoal d = None
                     then setSynthesizedGoal (p3_synthesized_goal p3) s1 else s1)
           in if phase3Steps' \<noteq> [] then setPhase3Steps phase3Steps' (next_step_id p3) s2
              else s2))"







text \<open>Concrete steps used to evaluate the step actions.\<close>

definition emptyFindings :: Findings where
  "emptyFindings =
     \<lparr> summary = [], article = None,
       points_of_interest = \<lparr> key_claims = [], notable_evidence = [] \<rparr>,
       analysis_details = \<lparr> five_whys = [], assumptions = [], uncertainties = [] \<rparr> \<rparr>"

definition mkStep :: "int \<Rightarrow> string \<Rightarrow> SessionStep" where
  "mkStep i txt =
     \<lparr> step_id = i, findings = emptyFindings, insights = txt, confidence = 1,
       timestamp = ''2024-01-01T00:00:00.000Z'' \<rparr>"

text \<open>Concrete plans, reports, messages and goal events used to evaluate the actions.\<close>

definition mkPlanStep :: "int \<Rightarrow> string \<Rightarrow> PlanStepUpdate" where
  "mkPlanStep i g =
     \<lparr> pe_step_id = i, pe_goal = Some g, pe_required_data = None,
       pe_chunk_strategy = None, pe_notes = None, pe_status = None,
       pe_updatedAt = None \<rparr>"

definition readyReport :: FinalReport where
  "readyReport = \<lparr> fr_content = ''report'', generatedAt = ''2024-01-02T00:00:00.000Z'',
                   fr_status = ReportReady \<rparr>"

text \<open>A started session with a final report, a plan of one step and two stored steps.\<close>

definition overfullState :: WorkflowState where
  "overfullState =
     initialState\<lparr> batchId := Some ''b1'', workflowStarted := True,
       researchAgentStatus := initialResearchAgentStatus\<lparr> plan := Some [mkPlanStep 1 ''g''] \<rparr>,
       phase3Steps := [mkStep 1 ''a'', mkStep 2 ''b''],
       finalReport := Some readyReport \<rparr>"

text \<open>The same session with a plan of two steps and one stored step.\<close>

definition underfullState :: WorkflowState where
  "underfullState =
     initialState\<lparr> batchId := Some ''b1'', workflowStarted := True,
       researchAgentStatus :=
         initialResearchAgentStatus\<lparr> plan := Some [mkPlanStep 1 ''g'', mkPlanStep 2 ''h''] \<rparr>,
       phase3Steps := [mkStep 1 ''a''],
       finalReport := Some readyReport \<rparr>"



text \<open>The goal event that carries only an id.\<close>

definition goalEvent :: "int \<Rightarrow> GoalUpdate" where
  "goalEvent i =
     \<lparr> ge_id = i, ge_goal_text = None, ge_rationale = None, ge_uses = None,
       ge_sources = None, ge_status = None, ge_updatedAt = None \<rparr>"







section \<open>Properties\<close>

text \<open>
  C10. \<open>setBatchId\<close> with the stored batch id leaves the whole state as it is (the two
  fields it writes, \<open>batchId\<close> and \<open>workflowStarted\<close>, get the values they had); with any
  other batch id every field of the state is the initial one, except \<open>batchId\<close>, which is
  the new id.
\<close>

theorem setBatchId_frame_or_reset:
  "(batchId s = Some b \<longrightarrow> setBatchId b s = s) \<and>
   (batchId s \<noteq> Some b \<longrightarrow> setBatchId b s = initialState\<lparr> batchId := Some b \<rparr>)"
  by (simp add: setBatchId_def initialState_def initialResearchAgentStatus_def
      initialScrapingStatus_def initialStreams_def initialStreamingState_def)

theorem setBatchId_frame_or_reset_witness:
  "setBatchId ''b1'' (initialState\<lparr> batchId := Some ''b1'', workflowStarted := True,
       currentPhase := ''phase3'', sessionId := Some ''s1'' \<rparr>)
     = initialState\<lparr> batchId := Some ''b1'', workflowStarted := True,
         currentPhase := ''phase3'', sessionId := Some ''s1'' \<rparr> \<and>
   setBatchId ''b2'' (initialState\<lparr> batchId := Some ''b1'', workflowStarted := True,
       currentPhase := ''phase3'', sessionId := Some ''s1'' \<rparr>)
     = initialState\<lparr> batchId := Some ''b2'' \<rparr>"
  using setBatchId_frame_or_reset [of "initialState\<lparr> batchId := Some ''b1'',
       workflowStarted := True, currentPhase := ''phase3'', sessionId := Some ''s1'' \<rparr>" "''b1''"]
    setBatchId_frame_or_reset [of "initialState\<lparr> batchId := Some ''b1'',
       workflowStarted := True, currentPhase := ''phase3'', sessionId := Some ''s1'' \<rparr>" "''b2''"]
  by simp

text \<open>
  C4. An update whose \<open>expectedTotal\<close> is \<open>0\<close> or \<open>null\<close> leaves the stored
  \<open>expectedTotal\<close> as it was, in every state: a positive stored value is kept and a
  stored \<open>0\<close> stays \<open>0\<close>. Every other field of the update is merged: a field the update
  carries takes the update's value, a field it omits keeps the stored one.
\<close>

theorem updateScrapingStatus_expectedTotal_guard:
  assumes "u_expectedTotal u = Some (Some 0) \<or> u_expectedTotal u = Some None"
  shows "expectedTotal (scrapingStatus (updateScrapingStatus u s))
           = expectedTotal (scrapingStatus s) \<and>
         total (scrapingStatus (updateScrapingStatus u s))
           = (case u_total u of Some v \<Rightarrow> v | None \<Rightarrow> total (scrapingStatus s)) \<and>
         completed (scrapingStatus (updateScrapingStatus u s))
           = (case u_completed u of Some v \<Rightarrow> v | None \<Rightarrow> completed (scrapingStatus s)) \<and>
         failed (scrapingStatus (updateScrapingStatus u s))
           = (case u_failed u of Some v \<Rightarrow> v | None \<Rightarrow> failed (scrapingStatus s)) \<and>
         inProgress (scrapingStatus (updateScrapingStatus u s))
           = (case u_inProgress u of Some v \<Rightarrow> v | None \<Rightarrow> inProgress (scrapingStatus s)) \<and>
         items (scrapingStatus (updateScrapingStatus u s))
           = (case u_items u of Some v \<Rightarrow> v | None \<Rightarrow> items (scrapingStatus s)) \<and>
         completionRate (scrapingStatus (updateScrapingStatus u s))
           = (case u_completionRate u of Some v \<Rightarrow> v
              | None \<Rightarrow> completionRate (scrapingStatus s)) \<and>
         is100Percent (scrapingStatus (updateScrapingStatus u s))
           = (case u_is100Percent u of Some v \<Rightarrow> v
              | None \<Rightarrow> is100Percent (scrapingStatus s)) \<and>
         canProceedToResearch (scrapingStatus (updateScrapingStatus u s))
           = (case u_canProceedToResearch u of Some v \<Rightarrow> v
              | None \<Rightarrow> canProceedToResearch (scrapingStatus s))"
  using assms
  by (auto simp: updateScrapingStatus_def mergeScrapingStatus_def orKeep_def Let_def)

theorem updateScrapingStatus_expectedTotal_guard_witness:
  "expectedTotal (scrapingStatus (updateScrapingStatus
       (noStatusUpdate\<lparr> u_expectedTotal := Some (Some 0), u_completed := Some 2 \<rparr>)
       (initialState\<lparr> scrapingStatus := initialScrapingStatus\<lparr> expectedTotal := 5 \<rparr> \<rparr>))) = 5 \<and>
   completed (scrapingStatus (updateScrapingStatus
       (noStatusUpdate\<lparr> u_expectedTotal := Some (Some 0), u_completed := Some 2 \<rparr>)
       (initialState\<lparr> scrapingStatus := initialScrapingStatus\<lparr> expectedTotal := 5 \<rparr> \<rparr>))) = 2 \<and>
   expectedTotal (scrapingStatus (updateScrapingStatus
       (noStatusUpdate\<lparr> u_expectedTotal := Some None \<rparr>) initialState)) = 0"
  using updateScrapingStatus_expectedTotal_guard
          [of "noStatusUpdate\<lparr> u_expectedTotal := Some (Some 0), u_completed := Some 2 \<rparr>"
              "initialState\<lparr> scrapingStatus := initialScrapingStatus\<lparr> expectedTotal := 5 \<rparr> \<rparr>"]
        updateScrapingStatus_expectedTotal_guard
          [of "noStatusUpdate\<lparr> u_expectedTotal := Some None \<rparr>" initialState]
  by (simp add: noStatusUpdate_def initialState_def initialScrapingStatus_def orKeep_def)

text \<open>
  C6. Both scraping-item actions recount the counters from the new item list, but not
  with one function. From the state with two pending items \<open>a\<close> and \<open>b\<close>, marking \<open>b\<close>
  completed through \<open>updateScrapingItem\<close> and through \<open>updateScrapingItemProgress\<close> gives
  the same item list, the same \<open>completed\<close> and \<open>failed\<close>, and two different values of
  \<open>inProgress\<close>: \<open>0\<close> and \<open>1\<close>, because only the second action counts the pending item.
\<close>

theorem inProgress_counted_differently:
  "items (scrapingStatus (updateScrapingItem ''b'' Completed None twoPendingItems))
     = [mkItem ''a'' Pending, mkItem ''b'' Completed] \<and>
   items (scrapingStatus (updateScrapingItemProgress None ''b''
            (noProgress\<lparr> p_status := Some Completed \<rparr>) twoPendingItems))
     = [mkItem ''a'' Pending, mkItem ''b'' Completed] \<and>
   completed (scrapingStatus (updateScrapingItem ''b'' Completed None twoPendingItems)) = 1 \<and>
   completed (scrapingStatus (updateScrapingItemProgress None ''b''
            (noProgress\<lparr> p_status := Some Completed \<rparr>) twoPendingItems)) = 1 \<and>
   inProgress (scrapingStatus (updateScrapingItem ''b'' Completed None twoPendingItems)) = 0 \<and>
   inProgress (scrapingStatus (updateScrapingItemProgress None ''b''
            (noProgress\<lparr> p_status := Some Completed \<rparr>) twoPendingItems)) = 1"
  by (simp add: updateScrapingItem_def updateScrapingItemProgress_def twoPendingItems_def
      mkItem_def noProgress_def spreadProgress_def nullish_def orKeep_def truthy_def Let_def
      initialState_def initialScrapingStatus_def)

subsection \<open>Stable sorting and insertion-ordered maps\<close>





subsection \<open>Adding a step\<close>











text \<open>
  C5. \<open>setPhase3Steps\<close> stores a sorted copy of its argument and removes nothing: given
  two steps with \<open>step_id\<close> 1 it stores both. A following \<open>addPhase3Step\<close> of a new
  \<open>step_id\<close> takes the branch that appends, so the two entries stay.
\<close>

theorem setPhase3Steps_keeps_duplicates:
  "phase3Steps (setPhase3Steps [mkStep 1 ''a'', mkStep 1 ''b''] None initialState)
     = [mkStep 1 ''a'', mkStep 1 ''b''] \<and>
   phase3Steps (addPhase3Step (mkStep 2 ''c'')
       (setPhase3Steps [mkStep 1 ''a'', mkStep 1 ''b''] None initialState))
     = [mkStep 1 ''a'', mkStep 1 ''b'', mkStep 2 ''c'']"
  by (simp add: setPhase3Steps_def addPhase3Step_def addStepTo_def mkStep_def Let_def)




subsection \<open>The validator\<close>

text \<open>
  C8, as stated, fails: with a final report, a plan of one step and two stored steps the
  step count differs from the plan length, and \<open>validateState\<close> reports nothing.
\<close>

theorem validateState_overfull_counterexample:
  "finalReport overfullState = Some readyReport \<and>
   plan (researchAgentStatus overfullState) = Some [mkPlanStep 1 ''g''] \<and>
   length (phase3Steps overfullState) = 2 \<and>
   validateState overfullState = \<lparr> isValid = True, v_errors = [] \<rparr>"
  by (simp add: overfullState_def validateState_def initialState_def
      initialResearchAgentStatus_def initialScrapingStatus_def truthy_def Let_def)

text \<open>
  C8, amended. \<open>validateState\<close> reports the final-report-completeness violation exactly
  when a batch id is set (and not empty), a final report exists, a plan exists and there
  are fewer stored steps than plan steps. So no such violation is reported when the step
  count equals the plan length, nor when it exceeds it, nor when no batch id is set.
\<close>

theorem validateState_incomplete_iff:
  "(\<exists>n m. incompleteMessage n m \<in> set (v_errors (validateState s))) \<longleftrightarrow>
   (truthy (batchId s) \<and> finalReport s \<noteq> None \<and>
    (\<exists>p. plan (researchAgentStatus s) = Some p \<and> length (phase3Steps s) < length p))"
  by (auto simp: validateState_def Let_def incompleteMessage_def)

theorem validateState_incomplete_iff_witness:
  "v_errors (validateState underfullState)
     = [''Final report exists but phase3 incomplete (1/2 steps)''] \<and>
   (\<exists>n m. incompleteMessage n m \<in> set (v_errors (validateState underfullState))) \<and>
   \<not> (\<exists>n m. incompleteMessage n m \<in> set (v_errors (validateState overfullState)))"
  using validateState_incomplete_iff [of underfullState]
        validateState_incomplete_iff [of overfullState]
  by (simp add: underfullState_def overfullState_def validateState_def initialState_def
      incompleteMessage_def showNat.simps digitChar_def initialResearchAgentStatus_def
      initialScrapingStatus_def truthy_def Let_def)

subsection \<open>Conversation messages\<close>







subsection \<open>Live goals\<close>

text \<open>
  C3, as stated, fails for one field: an event that omits \<open>updatedAt\<close> does not leave
  the stored \<open>updatedAt\<close> unchanged, it is stamped with the clock reading of the update.
\<close>

theorem updateLiveGoal_restamps_counterexample:
  "Option.bind (liveGoals (researchAgentStatus
       (updateLiveGoal ''2024-01-01T00:00:00.000Z''
          ((goalEvent 1)\<lparr> ge_status := Some LiveStreaming \<rparr>) initialState)) 1) updatedAt
     = Some ''2024-01-01T00:00:00.000Z'' \<and>
   ge_updatedAt ((goalEvent 1)\<lparr> ge_goal_text := Some ''X'' \<rparr>) = None \<and>
   Option.bind (liveGoals (researchAgentStatus
       (updateLiveGoal ''2024-01-02T00:00:00.000Z''
          ((goalEvent 1)\<lparr> ge_goal_text := Some ''X'' \<rparr>)
          (updateLiveGoal ''2024-01-01T00:00:00.000Z''
             ((goalEvent 1)\<lparr> ge_status := Some LiveStreaming \<rparr>) initialState))) 1) updatedAt
     = Some ''2024-01-02T00:00:00.000Z''"
  by (simp add: updateLiveGoal_def goalEvent_def nullish_def Let_def)

text \<open>
  C3, amended. For a stored goal, an event that omits \<open>goal_text\<close>, \<open>rationale\<close>, \<open>uses\<close>,
  \<open>sources\<close> or \<open>status\<close> leaves the stored value of that field unchanged; \<open>updatedAt\<close>
  is the event's value when it carries one and the clock reading otherwise; goals of
  other ids are untouched. In particular, from every state, a status event
  \<open>{id: 1, status: 'streaming'}\<close> followed by \<open>{id: 1, goal_text: 'X'}\<close> leaves goal 1 with
  status \<open>'streaming'\<close> and goal text \<open>'X'\<close>.
\<close>

theorem updateLiveGoal_keeps_omitted_fields:
  "(\<forall>p. liveGoals (researchAgentStatus s) (ge_id g) = Some p \<longrightarrow>
      (\<exists>m. liveGoals (researchAgentStatus (updateLiveGoal now g s)) (ge_id g) = Some m \<and>
           (ge_goal_text g = None \<longrightarrow> goal_text m = goal_text p) \<and>
           (ge_rationale g = None \<longrightarrow> rationale m = rationale p) \<and>
           (ge_uses g = None \<longrightarrow> uses m = uses p) \<and>
           (ge_sources g = None \<longrightarrow> sources m = sources p) \<and>
           (ge_status g = None \<longrightarrow> lg_status m = lg_status p) \<and>
           updatedAt m = Some (orKeep (ge_updatedAt g) now))) \<and>
   (\<forall>j. j \<noteq> ge_id g \<longrightarrow>
      liveGoals (researchAgentStatus (updateLiveGoal now g s)) j
        = liveGoals (researchAgentStatus s) j) \<and>
   (\<exists>m. liveGoals (researchAgentStatus
            (updateLiveGoal t2 ((goalEvent 1)\<lparr> ge_goal_text := Some ''X'' \<rparr>)
               (updateLiveGoal t1 ((goalEvent 1)\<lparr> ge_status := Some LiveStreaming \<rparr>) s))) 1
          = Some m \<and>
        lg_status m = LiveStreaming \<and> goal_text m = Some ''X'')"
  by (auto simp: updateLiveGoal_def goalEvent_def nullish_def orKeep_def Let_def
      split: option.splits)


theorem updateLiveGoal_keeps_omitted_fields_witness:
  "liveGoals (researchAgentStatus
      (updateLiveGoal ''2024-01-02T00:00:00.000Z'' ((goalEvent 1)\<lparr> ge_goal_text := Some ''X'' \<rparr>)
         (updateLiveGoal ''2024-01-01T00:00:00.000Z''
            ((goalEvent 1)\<lparr> ge_status := Some LiveStreaming \<rparr>) initialState))) 1
     = Some \<lparr> lg_id = 1, goal_text = Some ''X'', rationale = None, uses = None,
              sources = None, lg_status = LiveStreaming,
              updatedAt = Some ''2024-01-02T00:00:00.000Z'' \<rparr>"
  using updateLiveGoal_keeps_omitted_fields
    [of "updateLiveGoal ''2024-01-01T00:00:00.000Z''
            ((goalEvent 1)\<lparr> ge_status := Some LiveStreaming \<rparr>) initialState"
        "(goalEvent 1)\<lparr> ge_goal_text := Some ''X'' \<rparr>" "''2024-01-02T00:00:00.000Z''"
        "''2024-01-02T00:00:00.000Z''" "''2024-01-01T00:00:00.000Z''"]
  by (simp add: updateLiveGoal_def goalEvent_def nullish_def orKeep_def Let_def
      initialState_def initialResearchAgentStatus_def)

subsection \<open>Hydration\<close>

lemma ra_phase_setGoals [simp]:
  "ra_phase (researchAgentStatus (setGoals t gs s)) = ra_phase (researchAgentStatus s)"
  by (simp add: setGoals_def Let_def)

lemma ra_phase_setPlan [simp]:
  "ra_phase (researchAgentStatus (setPlan t ps s)) = ra_phase (researchAgentStatus s)"
  by (simp add: setPlan_def Let_def)

lemma ra_phase_setSynthesizedGoal [simp]:
  "ra_phase (researchAgentStatus (setSynthesizedGoal g s)) = ra_phase (researchAgentStatus s)"
  by (simp add: setSynthesizedGoal_def)

lemma ra_phase_setPhase3Steps [simp]:
  "ra_phase (researchAgentStatus (setPhase3Steps xs n s)) = ra_phase (researchAgentStatus s)"
  by (simp add: setPhase3Steps_def Let_def)

lemma ra_phase_hydratePhase3 [simp]:
  "ra_phase (researchAgentStatus (hydratePhase3 t d s)) = ra_phase (researchAgentStatus s)"
  by (simp add: hydratePhase3_def Let_def split: option.splits)







lemma nullish_idem [simp]: "nullish a (nullish a b) = nullish a b"
  by (simp add: nullish_def split: option.splits)

lemma orKeep_idem [simp]: "orKeep a (orKeep a b) = orKeep a b"
  by (simp add: orKeep_def split: option.splits)

lemma nullish_None [simp]: "nullish None b = b"
  by (simp add: nullish_def)

subsection \<open>Idempotence of the event actions\<close>


lemma spreadGoal_idem: "spreadGoal (spreadGoal g e) e = spreadGoal g e"
  by (simp add: spreadGoal_def)

















subsection \<open>Idempotence of the message upsert\<close>













end
